theory Spec2Isabelle
  imports Complex_Main
begin

text \<open>
  The shopping cart and the gallery modal of \<open>js/script.js\<close>, as functions on an explicit
  page state. The module-level \<open>cart\<close>, the \<open>artStudioCart\<close> entry of \<open>localStorage\<close>, the
  elements the code looks up and what it sends to the console and to the dialogs are
  fields of a record; every function takes the state and returns the new one, together
  with the exception it raised, if it can raise one. What the browser decides (the clock,
  the random number, the user's answer to \<open>confirm\<close>, the state of \<open>localStorage\<close>) is
  an argument or a field.
\<close>

section \<open>JavaScript numbers\<close>

text \<open>
  A Number is \<open>NaN\<close>, one of the two infinities, or a finite double, which is given here by
  its exact rational value. The two zeros are one value, as \<open>===\<close> has it.
  Arithmetic rounds to the nearest double, ties to even (\<open>fl\<close>).
\<close>

datatype jsnum = NaN | PosInf | NegInf | Fin rat

function bitlen :: "int \<Rightarrow> int" where
  "bitlen n = (if n \<le> 0 then 0 else 1 + bitlen (n div 2))"
  by pat_completeness auto
termination
  by (relation "measure nat") auto

declare bitlen.simps [simp del]

definition pow2 :: "int \<Rightarrow> rat" where
  "pow2 z = (if 0 \<le> z then 2 ^ nat z else 1 / 2 ^ nat (- z))"

text \<open>\<open>ilog2 a\<close> is the integer \<open>e\<close> with \<open>2^e \<le> a < 2^(e+1)\<close>, for \<open>a > 0\<close>.\<close>

definition ilog2 :: "rat \<Rightarrow> int" where
  "ilog2 a = (if 1 \<le> a then bitlen \<lfloor>a\<rfloor> - 1 else - bitlen (\<lceil>1 / a\<rceil> - 1))"

definition round_half_even :: "rat \<Rightarrow> int" where
  "round_half_even x =
     (let f = \<lfloor>x\<rfloor>; d = x - of_int f
      in if d < 1 / 2 then f
         else if 1 / 2 < d then f + 1
         else if even f then f else f + 1)"

text \<open>
  Rounding a real value to binary64: 53 significant bits, least exponent \<open>-1022\<close>
  (below it the spacing stays \<open>2^-1074\<close>), overflow to an infinity where the rounded
  magnitude \<open>m\<close> reaches \<open>2^1024\<close>.
\<close>

definition fl :: "rat \<Rightarrow> jsnum" where
  "fl r =
     (if r = 0 then Fin 0
      else
        let a = \<bar>r\<bar>;
            q = pow2 (max (ilog2 a) (- 1022) - 52);
            m = of_int (round_half_even (a / q)) * q
        in if 1024 \<le> ilog2 m then (if r < 0 then NegInf else PosInf)
           else Fin (if r < 0 then - m else m))"

text \<open>The \<open>+\<close> of two Numbers.\<close>

fun jadd :: "jsnum \<Rightarrow> jsnum \<Rightarrow> jsnum" where
  "jadd NaN _ = NaN"
| "jadd _ NaN = NaN"
| "jadd PosInf NegInf = NaN"
| "jadd NegInf PosInf = NaN"
| "jadd PosInf _ = PosInf"
| "jadd _ PosInf = PosInf"
| "jadd NegInf _ = NegInf"
| "jadd _ NegInf = NegInf"
| "jadd (Fin a) (Fin b) = fl (a + b)"

text \<open>\<open>x < 0\<close> for a Number \<open>x\<close>.\<close>

fun lt_zero :: "jsnum \<Rightarrow> bool" where
  "lt_zero NaN = False"
| "lt_zero PosInf = False"
| "lt_zero NegInf = True"
| "lt_zero (Fin r) = (r < 0)"


section \<open>Values\<close>

text \<open>
  Strings are lists of code units below 256. \<open>prim\<close> are the primitive values a caller can
  pass; \<open>jsval\<close> adds arrays and plain objects (own properties in enumeration order), which
  is what \<open>JSON.parse\<close> can return and what the cart holds.
\<close>

datatype prim = Undefined | Null | Bool bool | Num jsnum | Str string

datatype jsval = Prim prim | Arr "jsval list" | Obj "(string \<times> jsval) list"

text \<open>The truth value of a primitive: what \<open>!v\<close> negates.\<close>

fun truthy :: "prim \<Rightarrow> bool" where
  "truthy Undefined = False"
| "truthy Null = False"
| "truthy (Bool b) = b"
| "truthy (Num NaN) = False"
| "truthy (Num (Fin r)) = (r \<noteq> 0)"
| "truthy (Num _) = True"
| "truthy (Str s) = (s \<noteq> [])"

text \<open>
  Property read \<open>v.k\<close>: a \<open>TypeError\<close> (\<open>None\<close>) on \<open>undefined\<close> and \<open>null\<close>,
  \<open>undefined\<close> where the property is missing. Only the keys \<open>name\<close>, \<open>price\<close> and \<open>id\<close>
  are read, which no primitive wrapper and no array defines.
\<close>

fun get_prop :: "jsval \<Rightarrow> string \<Rightarrow> jsval option" where
  "get_prop (Prim Undefined) k = None"
| "get_prop (Prim Null) k = None"
| "get_prop (Prim _) k = Some (Prim Undefined)"
| "get_prop (Arr _) k = Some (Prim Undefined)"
| "get_prop (Obj ps) k = (case map_of ps k of None \<Rightarrow> Some (Prim Undefined) | Some v \<Rightarrow> Some v)"

section \<open>Text to number: \<open>parseFloat\<close>\<close>

definition is_digit :: "char \<Rightarrow> bool" where
  "is_digit c = (48 \<le> (of_char c :: nat) \<and> (of_char c :: nat) \<le> 57)"

definition digit_val :: "char \<Rightarrow> int" where
  "digit_val c = of_char c - 48"

definition digits_val :: "string \<Rightarrow> int" where
  "digits_val ds = foldl (\<lambda>a c. 10 * a + digit_val c) 0 ds"

text \<open>WhiteSpace and LineTerminator, among the code units below 256.\<close>

definition is_space :: "char \<Rightarrow> bool" where
  "is_space c = ((of_char c :: nat) \<in> {9, 10, 11, 12, 13, 32, 160})"

definition pow10 :: "int \<Rightarrow> rat" where
  "pow10 z = (if 0 \<le> z then 10 ^ nat z else 1 / 10 ^ nat (- z))"

text \<open>
  The value of the ExponentPart the text starts with (\<open>e\<close> or \<open>E\<close>, an optional sign,
  digits), and \<open>0\<close> where it starts with none.
\<close>

fun exponent_part :: "string \<Rightarrow> int" where
  "exponent_part (c # d # t) =
     (if c = CHR ''e'' \<or> c = CHR ''E'' then
        (if d = CHR ''+'' then digits_val (takeWhile is_digit t)
         else if d = CHR ''-'' then - digits_val (takeWhile is_digit t)
         else digits_val (takeWhile is_digit (d # t)))
      else 0)"
| "exponent_part _ = 0"

text \<open>
  The longest prefix that is a StrUnsignedDecimalLiteral, by its value:
  \<open>Infinity\<close>, digits with an optional fraction and exponent, or a fraction that starts with
  the point. \<open>None\<close> where no prefix is one.
\<close>

definition unsigned_literal :: "string \<Rightarrow> jsnum option" where
  "unsigned_literal s =
     (if take 8 s = ''Infinity'' then Some PosInf
      else
        let ip = takeWhile is_digit s; r1 = dropWhile is_digit s
        in case r1 of
             c # r2 \<Rightarrow>
               if c = CHR ''.'' then
                 (let fp = takeWhile is_digit r2; r3 = dropWhile is_digit r2
                  in if ip = [] \<and> fp = [] then None
                     else Some (fl (of_int (digits_val (ip @ fp)) / 10 ^ length fp
                                      * pow10 (exponent_part r3))))
               else if ip = [] then None
               else Some (fl (of_int (digits_val ip) * pow10 (exponent_part r1)))
           | [] \<Rightarrow> if ip = [] then None else Some (fl (of_int (digits_val ip))))"

fun jneg :: "jsnum \<Rightarrow> jsnum" where
  "jneg NaN = NaN"
| "jneg PosInf = NegInf"
| "jneg NegInf = PosInf"
| "jneg (Fin r) = Fin (- r)"

text \<open>
  \<open>parseFloat\<close>: leading white space is dropped, then the longest prefix that is a
  StrDecimalLiteral gives the number; \<open>NaN\<close> without such a prefix.
\<close>

definition parseFloat :: "string \<Rightarrow> jsnum" where
  "parseFloat s =
     (case dropWhile is_space s of
        [] \<Rightarrow> NaN
      | c # t \<Rightarrow>
          if c = CHR ''+'' then (case unsigned_literal t of None \<Rightarrow> NaN | Some n \<Rightarrow> n)
          else if c = CHR ''-'' then (case unsigned_literal t of None \<Rightarrow> NaN | Some n \<Rightarrow> jneg n)
          else (case unsigned_literal (c # t) of None \<Rightarrow> NaN | Some n \<Rightarrow> n))"

section \<open>Number to text: \<open>toFixed(2)\<close> and \<open>toString(36)\<close>\<close>

function digits_of :: "int \<Rightarrow> int \<Rightarrow> int list" where
  "digits_of b n = (if n \<le> 0 \<or> b \<le> 1 then [] else digits_of b (n div b) @ [n mod b])"
  by pat_completeness auto
termination
  by (relation "measure (\<lambda>(b, n). nat n)") (auto simp: int_div_less_self)

declare digits_of.simps [simp del]

text \<open>The digit characters \<open>0\<close> to \<open>9\<close> and \<open>a\<close> to \<open>z\<close>.\<close>

definition digit_char :: "int \<Rightarrow> char" where
  "digit_char d = (if d < 10 then char_of (48 + d) else char_of (87 + d))"

text \<open>A positive integer in decimal; the empty text for \<open>0\<close>.\<close>

definition dec_digits :: "int \<Rightarrow> string" where
  "dec_digits n = map digit_char (digits_of 10 n)"

text \<open>
  \<open>Number::toString\<close> for a finite \<open>a \<ge> 10^21\<close>: the shortest digits \<open>s\<close> (\<open>k\<close> of them)
  and the exponent \<open>n\<close> with \<open>fl (s * 10^(n - k)) = a\<close>, the closest such \<open>s\<close> where two
  fit, the even one on a tie; a double has them with \<open>k \<le> 17\<close>, where the search ends.
  The result is in exponent form, since \<open>n > 21\<close>.
\<close>

fun shortest :: "nat \<Rightarrow> nat \<Rightarrow> rat \<Rightarrow> int \<Rightarrow> int \<times> int" where
  "shortest fuel k a n =
     (let scale = pow10 (n - int k);
          lo = \<lfloor>a / scale\<rfloor>; hi = lo + 1;
          fits_lo = (fl (of_int lo * scale) = Fin a);
          fits_hi = (fl (of_int hi * scale) = Fin a);
          up = (if hi = 10 ^ k then (10 ^ (k - 1), n + 1) else (hi, n))
      in if fits_lo \<and> fits_hi then
           (if a - of_int lo * scale < of_int hi * scale - a then (lo, n)
            else if of_int hi * scale - a < a - of_int lo * scale then up
            else if even lo then (lo, n) else up)
         else if fits_lo then (lo, n)
         else if fits_hi then up
         else (case fuel of 0 \<Rightarrow> (lo, n) | Suc f \<Rightarrow> shortest f (Suc k) a n))"

declare shortest.simps [simp del]

definition large_to_string :: "rat \<Rightarrow> string" where
  "large_to_string a =
     (let sn = shortest 16 1 a (int (length (dec_digits \<lfloor>a\<rfloor>)));
          ds = dec_digits (fst sn); e = dec_digits (snd sn - 1)
      in if length ds = 1 then ds @ ''e+'' @ e
         else take 1 ds @ ''.'' @ drop 1 ds @ ''e+'' @ e)"

text \<open>
  \<open>x.toFixed(2)\<close>: the names of the values that are not finite; a sign for \<open>x < 0\<close>;
  \<open>Number::toString\<close> from \<open>10^21\<close> on; otherwise the integer \<open>n\<close> with \<open>n / 100\<close> closest
  to \<open>x\<close> (the larger of two), with a point before its last two digits.
\<close>

definition toFixed2 :: "jsnum \<Rightarrow> string" where
  "toFixed2 x =
     (case x of
        NaN \<Rightarrow> ''NaN''
      | PosInf \<Rightarrow> ''Infinity''
      | NegInf \<Rightarrow> ''-Infinity''
      | Fin r \<Rightarrow>
          (let s = (if r < 0 then ''-'' else []); a = \<bar>r\<bar>
           in if 10 ^ 21 \<le> a then s @ large_to_string a
              else
                let n = \<lfloor>a * 100 + 1 / 2\<rfloor>;
                    m = (if n = 0 then ''0'' else dec_digits n);
                    m' = (if length m \<le> 2 then replicate (3 - length m) CHR ''0'' @ m else m)
                in s @ take (length m' - 2) m' @ ''.'' @ drop (length m' - 2) m'))"

text \<open>\<open>n.toString(36)\<close> for an integer \<open>n \<ge> 0\<close>, which \<open>Date.now()\<close> is.\<close>

definition toString36 :: "int \<Rightarrow> string" where
  "toString36 n = (if n = 0 then ''0'' else map digit_char (digits_of 36 n))"

section \<open>Persistent storage and JSON\<close>

text \<open>
  A stored text is modelled by what the program can observe of it: the empty text (falsy,
  and no JSON), a non-empty text that \<open>JSON.parse\<close> rejects with a SyntaxError, or a text
  that \<open>JSON.parse\<close> maps to a value.
\<close>

datatype stored_text = Blank | NotJSON | JSON jsval

fun JSON_parse :: "stored_text \<Rightarrow> jsval option" where
  "JSON_parse Blank = None"
| "JSON_parse NotJSON = None"
| "JSON_parse (JSON v) = Some v"

text \<open>
  \<open>json_value v\<close> is the value that the text \<open>JSON.stringify\<close> writes for \<open>v\<close> stands for:
  \<open>NaN\<close>, the infinities and an \<open>undefined\<close> array element are written as \<open>null\<close>, a
  property that is \<open>undefined\<close> is left out, and strings and finite numbers are written
  so that they read back as they were.
\<close>

fun json_value :: "jsval \<Rightarrow> jsval" where
  "json_value (Prim Undefined) = Prim Null"
| "json_value (Prim (Num NaN)) = Prim Null"
| "json_value (Prim (Num PosInf)) = Prim Null"
| "json_value (Prim (Num NegInf)) = Prim Null"
| "json_value (Prim p) = Prim p"
| "json_value (Arr vs) = Arr (map json_value vs)"
| "json_value (Obj ps) =
     Obj (map (\<lambda>kv. (fst kv, json_value (snd kv))) (filter (\<lambda>kv. snd kv \<noteq> Prim Undefined) ps))"

definition JSON_stringify :: "jsval \<Rightarrow> stored_text" where
  "JSON_stringify v = JSON (json_value v)"

text \<open>
  \<open>window.localStorage\<close>: missing (\<open>Storage\<close> undefined or the property falsy), throwing on
  access (as in a privacy mode), or usable; \<open>setItem\<close> may still fail for lack of space.
\<close>

datatype storage_mode = Missing | Throwing | Usable

section \<open>The page\<close>

datatype exn = TypeError

datatype effect = Warn string | Log string | Alert string | Confirm string

text \<open>
  A row of \<open>#cart-table\<close>: the placeholder
  \<open><tr><td colspan="3" class="cart-empty">Your cart is empty</td></tr>\<close>, or an item's
  row with the value given to the name cell, the text of the price cell and the index its
  remove button carries.
\<close>

datatype row = EmptyRow | ItemRow jsval string nat

record page =
  cart :: "jsval list"
  ls_mode :: storage_mode
  ls_full :: bool
  ls_item :: "stored_text option"
  cart_table :: "row list option"
  cart_total :: "string option"
  effects :: "effect list"

definition emit :: "effect \<Rightarrow> page \<Rightarrow> page" where
  "emit e st = st\<lparr>effects := effects st @ [e]\<rparr>"

subsection \<open>\<open>loadCart\<close> and \<open>saveCart\<close>\<close>

definition loadCart :: "page \<Rightarrow> page" where
  "loadCart st =
     (case ls_mode st of
        Missing \<Rightarrow>
          (emit (Warn ''localStorage not available - cart will not persist between sessions'') st)
            \<lparr>cart := []\<rparr>
      | Throwing \<Rightarrow> (emit (Warn ''Failed to load cart from localStorage:'') st)\<lparr>cart := []\<rparr>
      | Usable \<Rightarrow>
          (case ls_item st of
             None \<Rightarrow> st\<lparr>cart := []\<rparr>
           | Some storedCart \<Rightarrow>
               if storedCart = Blank then st\<lparr>cart := []\<rparr>
               else
                 (case JSON_parse storedCart of
                    None \<Rightarrow>
                      (emit (Warn ''Failed to load cart from localStorage:'') st)\<lparr>cart := []\<rparr>
                  | Some (Arr parsedCart) \<Rightarrow> st\<lparr>cart := parsedCart\<rparr>
                  | Some _ \<Rightarrow>
                      (emit (Warn ''Invalid cart data in localStorage, starting with empty cart'') st)
                        \<lparr>cart := []\<rparr>)))"

definition saveCart :: "page \<Rightarrow> page" where
  "saveCart st =
     (case ls_mode st of
        Missing \<Rightarrow> st
      | Throwing \<Rightarrow> emit (Warn ''Failed to save cart to localStorage:'') st
      | Usable \<Rightarrow>
          if ls_full st then emit (Warn ''Failed to save cart to localStorage:'') st
          else st\<lparr>ls_item := Some (JSON_stringify (Arr (cart st)))\<rparr>)"

subsection \<open>\<open>updateCartUI\<close>\<close>

text \<open>
  Whether the conversion of a value to a string raises a \<open>TypeError\<close>. It does for an
  object with a property \<open>toString\<close> of its own: no value that \<open>JSON.parse\<close> returns or
  \<open>addToCart\<close> stores is a function, so that \<open>toString\<close> cannot be called, and \<open>valueOf\<close>
  is either such a property too or the inherited one, which returns the object. It does
  for an array with such an element, since the array joins the strings of its elements
  (the empty string for \<open>undefined\<close> and \<open>null\<close>). It does not for a primitive.
\<close>

fun to_string_raises :: "jsval \<Rightarrow> bool" where
  "to_string_raises (Prim p) = False"
| "to_string_raises (Arr vs) = list_ex to_string_raises vs"
| "to_string_raises (Obj ps) = (''toString'' \<in> set (map fst ps))"

text \<open>
  The \<open>forEach\<close> of \<open>updateCartUI\<close>, from index \<open>i\<close> on, appending to the rows so far.
  \<open>item.name\<close> and \<open>item.price\<close> raise on \<open>undefined\<close> and \<open>null\<close>; the name is converted
  to a string when it becomes the text of the name cell (and again for the label of the
  button, which raises for the same names); \<open>item.price.toFixed\<close> is callable on a Number
  only. The rows appended before a \<open>TypeError\<close> stay in the table.
\<close>

fun render_rows :: "nat \<Rightarrow> jsval list \<Rightarrow> row list \<Rightarrow> exn option \<times> row list" where
  "render_rows i [] rows = (None, rows)"
| "render_rows i (item # items) rows =
     (case get_prop item ''name'' of
        None \<Rightarrow> (Some TypeError, rows)
      | Some nm \<Rightarrow>
          if to_string_raises nm then (Some TypeError, rows)
          else
            (case get_prop item ''price'' of
               Some (Prim (Num p)) \<Rightarrow>
                 render_rows (Suc i) items (rows @ [ItemRow nm (''$'' @ toFixed2 p) i])
             | _ \<Rightarrow> (Some TypeError, rows)))"

text \<open>
  The \<open>reduce\<close> of \<open>updateCartUI\<close>: \<open>sum + item.price\<close> from the left, \<open>acc\<close> being
  the source's \<open>sum\<close>. It runs after the \<open>forEach\<close> has returned, so that every price is
  a Number and \<open>+\<close> is the addition of Numbers; \<open>None\<close> marks the carts for which it is
  not reached.
\<close>

fun reduce_total :: "jsnum \<Rightarrow> jsval list \<Rightarrow> jsnum option" where
  "reduce_total acc [] = Some acc"
| "reduce_total acc (item # items) =
     (case get_prop item ''price'' of
        Some (Prim (Num p)) \<Rightarrow> reduce_total (jadd acc p) items
      | _ \<Rightarrow> None)"

definition updateCartUI :: "page \<Rightarrow> exn option \<times> page" where
  "updateCartUI st =
     (case cart_table st of
        None \<Rightarrow> (None, st)
      | Some _ \<Rightarrow>
          if cart st = [] then
            (None, st\<lparr>cart_table := Some [EmptyRow],
                      cart_total := map_option (\<lambda>_. ''Total: $0.00'') (cart_total st)\<rparr>)
          else
            (case render_rows 0 (cart st) [] of
               (Some e, rows) \<Rightarrow> (Some e, st\<lparr>cart_table := Some rows\<rparr>)
             | (None, rows) \<Rightarrow>
                 (None, st\<lparr>cart_table := Some rows,
                           cart_total :=
                             (case reduce_total (Fin 0) (cart st) of
                                Some tot \<Rightarrow>
                                  map_option (\<lambda>_. ''Total: $'' @ toFixed2 tot) (cart_total st)
                              | None \<Rightarrow> cart_total st)\<rparr>)))"

subsection \<open>\<open>addToCart\<close>\<close>

text \<open>
  \<open>parsedPrice\<close>: \<open>parseFloat(price)\<close> for a string, the argument itself otherwise.
\<close>

fun parsed_price :: "prim \<Rightarrow> prim" where
  "parsed_price (Str s) = Num (parseFloat s)"
| "parsed_price p = p"

text \<open>
  The Number that \<open>isNaN(parsedPrice)\<close> and \<open>parsedPrice < 0\<close> test: \<open>parsedPrice\<close> itself
  where it is a Number, which it is for a string \<open>price\<close>, and otherwise what it converts
  to, \<open>NaN\<close> for \<open>undefined\<close>, \<open>0\<close> for \<open>null\<close> and \<open>false\<close>, \<open>1\<close> for \<open>true\<close>.
\<close>

fun price_number :: "prim \<Rightarrow> jsnum" where
  "price_number (Str s) = parseFloat s"
| "price_number (Num n) = n"
| "price_number Undefined = NaN"
| "price_number Null = Fin 0"
| "price_number (Bool b) = Fin (if b then 1 else 0)"

text \<open>
  The new item's id, from the reading \<open>now\<close> of \<open>Date.now()\<close> and the text \<open>rnd\<close> of
  \<open>Math.random().toString(36)\<close>, whose first two characters \<open>substr(2)\<close> drops.
\<close>

definition new_id :: "int \<Rightarrow> string \<Rightarrow> string" where
  "new_id now rnd = toString36 now @ drop 2 rnd"

definition addToCart :: "prim \<Rightarrow> prim \<Rightarrow> int \<Rightarrow> string \<Rightarrow> page \<Rightarrow> exn option \<times> page" where
  "addToCart name price now rnd st =
     (if \<not> truthy name then (None, emit (Warn ''Cannot add item to cart: missing name'') st)
      else if price_number price = NaN \<or> lt_zero (price_number price) then
        (None, emit (Warn ''Cannot add item to cart: invalid price'') st)
      else
        let cartItem = Obj [(''name'', Prim name),
                            (''price'', Prim (parsed_price price)),
                            (''id'', Prim (Str (new_id now rnd)))];
            st1 = saveCart (st\<lparr>cart := cart st @ [cartItem]\<rparr>)
        in case updateCartUI st1 of
             (Some e, st2) \<Rightarrow> (Some e, st2)
           | (None, st2) \<Rightarrow> (None, emit (Log ''Added to cart:'') st2))"

subsection \<open>\<open>removeItem\<close>\<close>

text \<open>\<open>index >= cart.length\<close> for a Number \<open>index\<close>.\<close>

fun ge_length :: "jsnum \<Rightarrow> nat \<Rightarrow> bool" where
  "ge_length NaN len = False"
| "ge_length PosInf len = True"
| "ge_length NegInf len = False"
| "ge_length (Fin r) len = (of_nat len \<le> r)"

text \<open>
  Where \<open>splice(index, 1)\<close> starts in an array of \<open>len\<close> elements: the index as an
  integer (\<open>NaN\<close> is \<open>0\<close>, a fraction is cut off), from the end if it is negative, and
  inside \<open>0 .. len\<close>.
\<close>

definition splice_start :: "jsnum \<Rightarrow> nat \<Rightarrow> nat" where
  "splice_start n len =
     (case n of
        NaN \<Rightarrow> 0
      | PosInf \<Rightarrow> len
      | NegInf \<Rightarrow> 0
      | Fin r \<Rightarrow>
          (let t = (if r < 0 then \<lceil>r\<rceil> else \<lfloor>r\<rfloor>)
           in if t < 0 then nat (max (int len + t) 0) else min (nat t) len))"

text \<open>\<open>xs.splice(index, 1)\<close>: one element goes, if there is one at the start.\<close>

definition splice1 :: "jsnum \<Rightarrow> 'a list \<Rightarrow> 'a list" where
  "splice1 n xs = (let s = splice_start n (length xs) in take s xs @ drop (Suc s) xs)"

definition removeItem :: "prim \<Rightarrow> page \<Rightarrow> exn option \<times> page" where
  "removeItem index st =
     (case index of
        Num n \<Rightarrow>
          if lt_zero n \<or> ge_length n (length (cart st)) then
            (None, emit (Warn ''Cannot remove item: invalid index'') st)
          else updateCartUI (saveCart (st\<lparr>cart := splice1 n (cart st)\<rparr>))
      | _ \<Rightarrow> (None, emit (Warn ''Cannot remove item: invalid index'') st))"

subsection \<open>\<open>clearCart\<close> and \<open>checkout\<close>\<close>

text \<open>\<open>answer\<close> is what the user replies to \<open>confirm\<close>, if it is shown.\<close>

definition clearCart :: "bool \<Rightarrow> page \<Rightarrow> exn option \<times> page" where
  "clearCart answer st =
     (if cart st = [] then (None, st)
      else
        let st1 = emit (Confirm ''Are you sure you want to clear your cart?'') st
        in if answer then updateCartUI (saveCart (st1\<lparr>cart := []\<rparr>)) else (None, st1))"

definition checkout :: "page \<Rightarrow> page" where
  "checkout st =
     (if cart st = [] then emit (Alert ''Your cart is empty!'') st
      else emit (Alert ''Checkout functionality coming soon!'') st)"

section \<open>The gallery modal\<close>

text \<open>
  The elements the modal code reads, each \<open>None\<close> where the page has no such element:
  the inline \<open>display\<close> of \<open>#modal-overlay\<close>, the \<open>src\<close> of \<open>#modal-image\<close>, the text and
  the \<open>display\<close> of \<open>#modal-caption\<close>, whether \<open>#modal-close\<close> has the focus; and the
  \<open>overflow\<close> of the body.
\<close>

record gallery =
  overlay :: "string option"
  image :: "string option"
  caption :: "(string \<times> string) option"
  close_button :: "bool option"
  body_overflow :: string
  warnings :: "string list"

definition openModal :: "string \<Rightarrow> string option \<Rightarrow> gallery \<Rightarrow> gallery" where
  "openModal imageSrc cap g =
     (case overlay g of
        None \<Rightarrow> g\<lparr>warnings := warnings g @ [''Modal overlay (#modal-overlay) not found'']\<rparr>
      | Some _ \<Rightarrow>
          (case image g of
             None \<Rightarrow> g\<lparr>warnings := warnings g @ [''Modal image (#modal-image) not found'']\<rparr>
           | Some _ \<Rightarrow>
               g\<lparr>image := Some imageSrc,
                 caption :=
                   (case caption g of
                      None \<Rightarrow> None
                    | Some (txt, disp) \<Rightarrow>
                        (case cap of
                           None \<Rightarrow> Some (txt, ''none'')
                         | Some c \<Rightarrow> if c = [] then Some (txt, ''none'') else Some (c, ''block''))),
                 overlay := Some ''flex'',
                 body_overflow := ''hidden'',
                 close_button := map_option (\<lambda>_. True) (close_button g)\<rparr>))"

definition closeModal :: "gallery \<Rightarrow> gallery" where
  "closeModal g =
     (case overlay g of
        None \<Rightarrow> g\<lparr>warnings := warnings g @ [''Modal overlay (#modal-overlay) not found'']\<rparr>
      | Some _ \<Rightarrow>
          g\<lparr>overlay := Some ''none'',
            body_overflow := [],
            image := map_option (\<lambda>_. []) (image g)\<rparr>)"

text \<open>
  The events the listeners of \<open>initGalleryModal\<close> and \<open>setupModalCloseHandlers\<close> receive:
  a click on a thumbnail with its \<open>data-full\<close> and \<open>data-caption\<close> attributes, a click on
  the close button, a click inside the overlay (on the overlay itself or on something in
  it), and a key press.
\<close>

datatype event =
    ThumbnailClick "string option" "string option"
  | CloseButtonClick
  | OverlayClick bool
  | KeyDown string

text \<open>
  The listeners, as installed on a page with gallery items: the one of the close button
  exists if the button does, the one of the overlay if the overlay does.
\<close>

fun handle :: "event \<Rightarrow> gallery \<Rightarrow> gallery" where
  "handle (ThumbnailClick fullImageSrc cap) g =
     (case fullImageSrc of
        None \<Rightarrow> g\<lparr>warnings := warnings g @ [''Gallery item missing data-full attribute'']\<rparr>
      | Some src \<Rightarrow>
          if src = [] then g\<lparr>warnings := warnings g @ [''Gallery item missing data-full attribute'']\<rparr>
          else openModal src cap g)"
| "handle CloseButtonClick g = (if close_button g = None then g else closeModal g)"
| "handle (OverlayClick target_is_overlay) g =
     (if overlay g = None then g else if target_is_overlay then closeModal g else g)"
| "handle (KeyDown key) g =
     (if key = ''Escape'' then (if overlay g = Some ''flex'' then closeModal g else g) else g)"

section \<open>Notions the properties are stated with\<close>

text \<open>\<open>n \<ge> 0\<close> for a Number \<open>n\<close>.\<close>

fun nonneg :: "jsnum \<Rightarrow> bool" where
  "nonneg NaN = False"
| "nonneg PosInf = True"
| "nonneg NegInf = False"
| "nonneg (Fin r) = (0 \<le> r)"

text \<open>
  A store page on a first visit: a usable and empty storage, an empty cart, and both
  \<open>#cart-table\<close> and \<open>#cart-total\<close> in the markup.
\<close>

definition first_visit :: page where
  "first_visit =
     \<lparr>cart = [], ls_mode = Usable, ls_full = False, ls_item = None,
      cart_table = Some [], cart_total = Some [], effects = []\<rparr>"

text \<open>
  The page after the two additions of the store's scenario, a print at 25.00 and one
  at 40, with the clock and the random texts read at each.
\<close>

definition sunset :: jsval where
  "sunset = Obj [(''name'', Prim (Str ''Sunset Print'')), (''price'', Prim (Num (Fin 25))),
                 (''id'', Prim (Str ''rsk3''))]"

definition ocean :: jsval where
  "ocean = Obj [(''name'', Prim (Str ''Ocean Wave'')), (''price'', Prim (Num (Fin 40))),
                (''id'', Prim (Str ''rtk4''))]"

definition two_items :: page where
  "two_items =
     snd (addToCart (Str ''Ocean Wave'') (Num (Fin 40)) 1001 ''0.k4''
       (snd (addToCart (Str ''Sunset Print'') (Num (Fin 25)) 1000 ''0.k3'' first_visit)))"

text \<open>
  A well-formed cart item, as \<open>addToCart\<close> builds it from a name and a finite price:
  a non-empty string \<open>name\<close>, a finite \<open>price \<ge> 0\<close> and a string \<open>id\<close>.
\<close>

fun is_name :: "jsval \<Rightarrow> bool" where
  "is_name (Prim (Str s)) = (s \<noteq> [])"
| "is_name _ = False"

fun is_price :: "jsval \<Rightarrow> bool" where
  "is_price (Prim (Num (Fin r))) = (0 \<le> r)"
| "is_price _ = False"

fun is_id :: "jsval \<Rightarrow> bool" where
  "is_id (Prim (Str s)) = True"
| "is_id _ = False"

fun cart_item :: "jsval \<Rightarrow> bool" where
  "cart_item (Obj [(k1, n), (k2, p), (k3, i)]) =
     (k1 = ''name'' \<and> k2 = ''price'' \<and> k3 = ''id'' \<and> is_name n \<and> is_price p \<and> is_id i)"
| "cart_item _ = False"

text \<open>The values that \<open>JSON.stringify\<close> writes without loss.\<close>

fun json_clean :: "jsval \<Rightarrow> bool" where
  "json_clean (Prim Undefined) = False"
| "json_clean (Prim (Num (Fin r))) = True"
| "json_clean (Prim (Num _)) = False"
| "json_clean (Prim _) = True"
| "json_clean (Arr vs) = list_all json_clean vs"
| "json_clean (Obj ps) = list_all (\<lambda>kv. json_clean (snd kv)) ps"

text \<open>A session in a browser without \<open>localStorage\<close>, after the same two additions.\<close>

definition session_only :: page where
  "session_only =
     snd (addToCart (Str ''Ocean Wave'') (Num (Fin 40)) 1001 ''0.k4''
       (snd (addToCart (Str ''Sunset Print'') (Num (Fin 25)) 1000 ''0.k3''
          (first_visit\<lparr>ls_mode := Missing\<rparr>))))"

text \<open>
  The invariant of the data model: the ids of the items are pairwise distinct, and every
  price is a finite number that is not negative.
\<close>

definition cart_inv :: "jsval list \<Rightarrow> bool" where
  "cart_inv c =
     (distinct (map (\<lambda>v. get_prop v ''id'') c)
      \<and> list_all (\<lambda>v. case get_prop v ''price'' of Some p \<Rightarrow> is_price p | None \<Rightarrow> False) c)"

text \<open>
  The items that \<open>updateCartUI\<close> renders without raising: the price is a Number and the
  name converts to a string. What a row shows of such an item: the value of its \<open>name\<close>
  and its price as \<open>toFixed(2)\<close> writes it.
\<close>

definition has_price :: "jsval \<Rightarrow> bool" where
  "has_price v = (case get_prop v ''price'' of Some (Prim (Num p)) \<Rightarrow> True | _ \<Rightarrow> False)"

definition price_of :: "jsval \<Rightarrow> jsnum" where
  "price_of v = (case get_prop v ''price'' of Some (Prim (Num p)) \<Rightarrow> p | _ \<Rightarrow> NaN)"

definition name_of :: "jsval \<Rightarrow> jsval" where
  "name_of v = (case get_prop v ''name'' of Some n \<Rightarrow> n | None \<Rightarrow> Prim Undefined)"

definition item_row :: "nat \<times> jsval \<Rightarrow> row" where
  "item_row iv = ItemRow (name_of (snd iv)) (''$'' @ toFixed2 (price_of (snd iv))) (fst iv)"

definition renders :: "jsval \<Rightarrow> bool" where
  "renders v = (has_price v \<and> \<not> to_string_raises (name_of v))"







text \<open>
  A gallery page with all the elements of the modal, before any click, and the same page
  after a click on a thumbnail with \<open>data-full="art1-full.jpg"\<close> and
  \<open>data-caption="Autumn"\<close>.
\<close>

definition gallery_page :: gallery where
  "gallery_page =
     \<lparr>overlay = Some [], image = Some [], caption = Some ([], []),
      close_button = Some False, body_overflow = [], warnings = []\<rparr>"

definition autumn_open :: gallery where
  "autumn_open = handle (ThumbnailClick (Some ''art1-full.jpg'') (Some ''Autumn'')) gallery_page"


section \<open>Properties\<close>

subsection \<open>Numbers\<close>










subsection \<open>What the operations leave alone\<close>

lemma saveCart_cart: "cart (saveCart st) = cart st"
  by (simp add: saveCart_def emit_def split: storage_mode.split)

lemma updateCartUI_cart: "cart (snd (updateCartUI st)) = cart st"
  by (simp add: updateCartUI_def split: option.split prod.split)

lemma updateCartUI_storage:
  "ls_item (snd (updateCartUI st)) = ls_item st"
  "ls_mode (snd (updateCartUI st)) = ls_mode st"
  "ls_full (snd (updateCartUI st)) = ls_full st"
  "effects (snd (updateCartUI st)) = effects st"
  by (simp_all add: updateCartUI_def split: option.split prod.split)


subsection \<open>Adding an item\<close>

lemma addToCart_accepted:
  assumes "truthy name" and "price_number price \<noteq> NaN" and "\<not> lt_zero (price_number price)"
  shows "cart (snd (addToCart name price now rnd st)) =
           cart st @ [Obj [(''name'', Prim name), (''price'', Prim (parsed_price price)),
                           (''id'', Prim (Str (new_id now rnd)))]]"
proof -
  let ?item = "Obj [(''name'', Prim name), (''price'', Prim (parsed_price price)),
                    (''id'', Prim (Str (new_id now rnd)))]"
  let ?st1 = "saveCart (st\<lparr>cart := cart st @ [?item]\<rparr>)"
  obtain e st2 where u: "updateCartUI ?st1 = (e, st2)"
    by (cases "updateCartUI ?st1")
  have "cart st2 = cart ?st1"
    using updateCartUI_cart [of ?st1] u by simp
  then have "cart st2 = cart st @ [?item]"
    by (simp add: saveCart_cart)
  then show ?thesis
    using assms u by (simp add: addToCart_def emit_def split: option.split)
qed




subsection \<open>Checkout\<close>

text \<open>
  C10. For every cart, empty or not, \<open>checkout\<close> leaves the cart, the persisted state
  and the cart view as they are; all it does is show one message.
\<close>

theorem checkout_only_alerts:
  "\<exists>msg. checkout st = st\<lparr>effects := effects st @ [Alert msg]\<rparr>"
  by (auto simp: checkout_def emit_def)

theorem checkout_only_alerts_witness:
  "\<exists>msg. checkout first_visit = first_visit\<lparr>effects := effects first_visit @ [Alert msg]\<rparr>"
  using checkout_only_alerts [of first_visit] .

lemma two_items_cart: "cart two_items = [sunset, ocean]"
  by code_simp

lemma two_items_page:
  "two_items =
     \<lparr>cart = [sunset, ocean], ls_mode = Usable, ls_full = False,
      ls_item = Some (JSON (Arr [sunset, ocean])),
      cart_table = Some [ItemRow (Prim (Str ''Sunset Print'')) ''$25.00'' 0,
                         ItemRow (Prim (Str ''Ocean Wave'')) ''$40.00'' 1],
      cart_total = Some ''Total: $65.00'',
      effects = [Log ''Added to cart:'', Log ''Added to cart:'']\<rparr>"
  by code_simp

text \<open>
  C2, as the code has it. \<open>addToCart\<close> with an empty (or otherwise falsy) name, or with a
  price that is \<open>undefined\<close>, a Number that is \<open>NaN\<close> or negative, or a string that
  \<open>parseFloat\<close> reads as \<open>NaN\<close> or as a negative number, changes nothing but the console,
  where it leaves one warning.
\<close>

theorem addToCart_rejects:
  assumes "\<not> truthy name \<or> price = Undefined \<or> (\<exists>n. price = Num n \<and> \<not> nonneg n)
           \<or> (\<exists>s. price = Str s \<and> \<not> nonneg (parseFloat s))"
  shows "\<exists>msg. addToCart name price now rnd st = (None, st\<lparr>effects := effects st @ [Warn msg]\<rparr>)"
proof -
  have nn: "\<not> nonneg n \<longleftrightarrow> n = NaN \<or> lt_zero n" for n
    by (cases n) auto
  from assms have "\<not> truthy name \<or> price_number price = NaN \<or> lt_zero (price_number price)"
    by (auto simp: nn)
  then show ?thesis
    by (auto simp: addToCart_def emit_def)
qed

theorem addToCart_rejects_witness:
  "\<not> nonneg (parseFloat ''free'')
   \<and> (\<exists>msg. addToCart (Str ''Sunset Print'') (Str ''free'') 1000 ''0.k3'' two_items
              = (None, two_items\<lparr>effects := effects two_items @ [Warn msg]\<rparr>))"
proof -
  have h: "\<not> nonneg (parseFloat ''free'')" by code_simp
  then have h': "\<not> truthy (Str ''Sunset Print'') \<or> Str ''free'' = Undefined
      \<or> (\<exists>n. Str ''free'' = Num n \<and> \<not> nonneg n)
      \<or> (\<exists>s. Str ''free'' = Str s \<and> \<not> nonneg (parseFloat s))"
    by simp
  show ?thesis
    by (rule conjI [OF h addToCart_rejects [OF h', of 1000 "''0.k3''" two_items]])
qed

text \<open>
  The claim C2 as it is written covers every price that is not a number. \<open>null\<close> is
  one, and it is added: \<open>isNaN(null)\<close> is false and \<open>null < 0\<close> is false.
\<close>

theorem addToCart_null_price_counterexample:
  "cart first_visit = []
   \<and> cart (snd (addToCart (Str ''Sunset Print'') Null 1000 ''0.k3'' first_visit))
       = [Obj [(''name'', Prim (Str ''Sunset Print'')), (''price'', Prim Null),
               (''id'', Prim (Str ''rsk3''))]]"
  by code_simp

subsection \<open>Removing an item\<close>

lemma removeItem_rejects:
  assumes "(\<forall>n. index \<noteq> Num n) \<or> (\<exists>n. index = Num n \<and> (lt_zero n \<or> ge_length n (length (cart st))))"
  shows "removeItem index st =
           (None, st\<lparr>effects := effects st @ [Warn ''Cannot remove item: invalid index'']\<rparr>)"
  using assms by (cases index) (auto simp: removeItem_def emit_def)

lemma splice1_nat:
  assumes "i < length xs"
  shows "splice1 (Fin (of_nat i)) xs = take i xs @ drop (Suc i) xs"
  using assms by (simp add: splice1_def splice_start_def)

lemma removeItem_in_range:
  assumes "i < length (cart st)"
  shows "cart (snd (removeItem (Num (Fin (of_nat i))) st)) = take i (cart st) @ drop (Suc i) (cart st)"
  using assms by (simp add: removeItem_def updateCartUI_cart saveCart_cart splice1_nat)

text \<open>
  C3 at the index \<open>NaN\<close>, which is a Number but no index: both comparisons of the guard
  are false for it, \<open>splice\<close> takes it for \<open>0\<close>, and the first item goes, without a
  warning.
\<close>

theorem removeItem_NaN_removes_first:
  "cart two_items = [sunset, ocean]
   \<and> cart (snd (removeItem (Num NaN) two_items)) = [ocean]
   \<and> effects (snd (removeItem (Num NaN) two_items)) = effects two_items"
  by code_simp

subsection \<open>Loading and saving\<close>

lemma json_clean_defined: "json_clean v \<Longrightarrow> v \<noteq> Prim Undefined"
  by auto

lemma json_value_clean: "json_clean v \<Longrightarrow> json_value v = v"
proof (induction v rule: json_value.induct)
  case (6 vs)
  then show ?case by (simp add: list_all_iff map_idI)
next
  case (7 ps)
  have clean: "json_clean (snd kv)" if "kv \<in> set ps" for kv
    using 7(2) that by (simp add: list_all_iff)
  have keep: "filter (\<lambda>kv. snd kv \<noteq> Prim Undefined) ps = ps"
    using clean json_clean_defined by (simp add: filter_id_conv)
  have "(fst kv, json_value (snd kv)) = kv" if "kv \<in> set ps" for kv
    using 7(1) [of kv] clean [OF that] that keep by simp
  then have "map (\<lambda>kv. (fst kv, json_value (snd kv))) ps = ps"
    by (intro map_idI)
  with keep show ?case by simp
qed simp_all

lemma cart_item_clean: "cart_item v \<Longrightarrow> json_clean v"
  by (induction v rule: cart_item.induct) (auto elim: is_name.elims is_price.elims is_id.elims)

lemma loadCart_saveCart:
  assumes "ls_mode st = Usable" and "\<not> ls_full st"
  shows "cart (loadCart (saveCart st)) = map json_value (cart st)"
  using assms by (simp add: loadCart_def saveCart_def JSON_stringify_def)

text \<open>
  C5, as the code has it. Where \<open>localStorage\<close> is usable and the write succeeds, saving
  a cart of well-formed items with \<open>saveCart\<close> and loading it with \<open>loadCart\<close> gives the
  same sequence: the same items, with their names, prices and ids, in the same order.
\<close>

theorem save_then_load_roundtrip:
  assumes "ls_mode st = Usable" and "\<not> ls_full st" and "list_all cart_item (cart st)"
  shows "cart (loadCart (saveCart st)) = cart st"
proof -
  have "map json_value (cart st) = cart st"
    using assms(3) by (intro map_idI) (simp add: list_all_iff cart_item_clean json_value_clean)
  then show ?thesis
    using loadCart_saveCart [OF assms(1,2)] by simp
qed

theorem save_then_load_roundtrip_witness:
  "ls_mode two_items = Usable \<and> \<not> ls_full two_items \<and> list_all cart_item (cart two_items)
   \<and> cart two_items = [sunset, ocean]
   \<and> cart (loadCart (saveCart two_items)) = cart two_items"
proof -
  have h1: "ls_mode two_items = Usable" by code_simp
  have h2: "\<not> ls_full two_items" by code_simp
  have h3: "list_all cart_item (cart two_items)" by code_simp
  show ?thesis
    using h1 h2 h3 two_items_cart save_then_load_roundtrip [OF h1 h2 h3] by simp
qed

text \<open>
  Without \<open>localStorage\<close> the claim C5 fails: \<open>saveCart\<close> returns at its guard, nothing
  is written, and \<open>loadCart\<close> starts from the empty cart.
\<close>

theorem roundtrip_without_storage_counterexample:
  "list_all cart_item (cart session_only)
   \<and> cart session_only = [sunset, ocean]
   \<and> cart (loadCart (saveCart session_only)) = []"
  by code_simp

text \<open>
  C6, as the code has it. \<open>loadCart\<close> has no exceptional outcome: all it does is inside
  its \<open>try\<close>. It sets the cart to the empty sequence where \<open>localStorage\<close> is missing or
  throws, where nothing or the empty text is stored, where the stored text is no JSON,
  and where it is JSON for something that is no array; a stored array becomes the cart as
  it is, whatever its elements. Nothing but the cart and the console changes, and the
  console gets a warning in each of these cases but the two of nothing stored and of a
  stored array.
\<close>

theorem loadCart_outcome:
  "(ls_mode st \<noteq> Usable \<longrightarrow> (\<exists>w. loadCart st = st\<lparr>cart := [], effects := effects st @ [Warn w]\<rparr>))
   \<and> (ls_mode st = Usable \<and> (ls_item st = None \<or> ls_item st = Some Blank) \<longrightarrow>
        loadCart st = st\<lparr>cart := []\<rparr>)
   \<and> (ls_mode st = Usable \<and> ls_item st = Some NotJSON \<longrightarrow>
        (\<exists>w. loadCart st = st\<lparr>cart := [], effects := effects st @ [Warn w]\<rparr>))
   \<and> (\<forall>v. ls_mode st = Usable \<and> ls_item st = Some (JSON v) \<and> (\<forall>vs. v \<noteq> Arr vs) \<longrightarrow>
        (\<exists>w. loadCart st = st\<lparr>cart := [], effects := effects st @ [Warn w]\<rparr>))
   \<and> (\<forall>vs. ls_mode st = Usable \<and> ls_item st = Some (JSON (Arr vs)) \<longrightarrow>
        loadCart st = st\<lparr>cart := vs\<rparr>)"
proof -
  have reset: "(emit (Warn w) st)\<lparr>cart := []\<rparr> = st\<lparr>cart := [], effects := effects st @ [Warn w]\<rparr>"
    for w by (simp add: emit_def)
  have a: "\<exists>w. loadCart st = (emit (Warn w) st)\<lparr>cart := []\<rparr>" if "ls_mode st \<noteq> Usable"
    using that by (cases "ls_mode st") (auto simp: loadCart_def)
  have b: "loadCart st = st\<lparr>cart := []\<rparr>"
    if "ls_mode st = Usable \<and> (ls_item st = None \<or> ls_item st = Some Blank)"
    using that by (auto simp: loadCart_def)
  have c: "\<exists>w. loadCart st = (emit (Warn w) st)\<lparr>cart := []\<rparr>"
    if "ls_mode st = Usable \<and> ls_item st = Some NotJSON"
    using that by (auto simp: loadCart_def)
  have d: "\<exists>w. loadCart st = (emit (Warn w) st)\<lparr>cart := []\<rparr>"
    if "ls_mode st = Usable \<and> ls_item st = Some (JSON v) \<and> (\<forall>vs. v \<noteq> Arr vs)" for v
    using that by (cases v) (auto simp: loadCart_def)
  have e: "loadCart st = st\<lparr>cart := vs\<rparr>"
    if "ls_mode st = Usable \<and> ls_item st = Some (JSON (Arr vs))" for vs
    using that by (auto simp: loadCart_def)
  from a b c d e show ?thesis
    unfolding reset by blast
qed

theorem loadCart_outcome_witness:
  "ls_mode two_items = Usable \<and> ls_item two_items = Some (JSON (Arr [sunset, ocean]))
   \<and> loadCart two_items = two_items\<lparr>cart := [sunset, ocean]\<rparr>
   \<and> ls_mode session_only \<noteq> Usable
   \<and> (\<exists>w. loadCart session_only
            = session_only\<lparr>cart := [], effects := effects session_only @ [Warn w]\<rparr>)"
proof -
  have h1: "ls_mode two_items = Usable \<and> ls_item two_items = Some (JSON (Arr [sunset, ocean]))"
    by code_simp
  have h2: "ls_mode session_only \<noteq> Usable" by code_simp
  from loadCart_outcome [of two_items] h1
  have a: "loadCart two_items = two_items\<lparr>cart := [sunset, ocean]\<rparr>" by blast
  from loadCart_outcome [of session_only] h2
  have b: "\<exists>w. loadCart session_only
            = session_only\<lparr>cart := [], effects := effects session_only @ [Warn w]\<rparr>" by blast
  from h1 h2 a b show ?thesis by blast
qed

text \<open>
  The claim C6 as it is written has the cart reset for every stored value that is not a
  well-formed sequence of cart items. An array of anything else is kept: here the
  array of the number 42.
\<close>

theorem loadCart_keeps_any_array_counterexample:
  "\<not> list_all cart_item [Prim (Num (Fin 42))]
   \<and> loadCart (first_visit\<lparr>ls_item := Some (JSON (Arr [Prim (Num (Fin 42))]))\<rparr>)
       = first_visit\<lparr>ls_item := Some (JSON (Arr [Prim (Num (Fin 42))])),
                      cart := [Prim (Num (Fin 42))]\<rparr>"
  by code_simp

subsection \<open>Clearing the cart\<close>

lemma updateCartUI_empty:
  "cart st = [] \<Longrightarrow> fst (updateCartUI st) = None"
  by (simp add: updateCartUI_def split: option.split)

text \<open>
  C7, as the code has it. On an empty cart \<open>clearCart\<close> shows no prompt and changes
  nothing. On a non-empty cart it shows the confirmation prompt. If the user confirms,
  the cart becomes empty, and the persisted state becomes the empty sequence where
  \<open>localStorage\<close> is usable and the write succeeds. If the user declines, the cart and
  the persisted state stay as they were.
\<close>

theorem clearCart_outcome:
  "(cart st = [] \<longrightarrow> clearCart answer st = (None, st))
   \<and> (cart st \<noteq> [] \<longrightarrow>
        (\<exists>ws. effects (snd (clearCart answer st))
                = effects st @ Confirm ''Are you sure you want to clear your cart?'' # ws))
   \<and> (cart st \<noteq> [] \<and> answer \<longrightarrow>
        fst (clearCart answer st) = None
        \<and> cart (snd (clearCart answer st)) = []
        \<and> (ls_mode st = Usable \<and> \<not> ls_full st \<longrightarrow>
             ls_item (snd (clearCart answer st)) = Some (JSON (Arr []))))
   \<and> (cart st \<noteq> [] \<and> \<not> answer \<longrightarrow>
        clearCart answer st
          = (None, st\<lparr>effects := effects st @ [Confirm ''Are you sure you want to clear your cart?'']\<rparr>))"
proof -
  let ?q = "Confirm ''Are you sure you want to clear your cart?''"
  let ?st1 = "(emit ?q st)\<lparr>cart := []\<rparr>"
  have a: "clearCart answer st = (None, st)" if "cart st = []"
    using that by (simp add: clearCart_def)
  have yes: "clearCart answer st = updateCartUI (saveCart ?st1)" if "cart st \<noteq> []" "answer"
    using that by (simp add: clearCart_def)
  have no: "clearCart answer st = (None, emit ?q st)" if "cart st \<noteq> []" "\<not> answer"
    using that by (simp add: clearCart_def)
  have sv: "\<exists>ws. effects (saveCart ?st1) = effects st @ ?q # ws"
    by (cases "ls_mode st") (auto simp: saveCart_def emit_def)
  have b: "\<exists>ws. effects (snd (clearCart answer st)) = effects st @ ?q # ws" if "cart st \<noteq> []"
  proof (cases answer)
    case True
    from yes [OF that True] sv show ?thesis by (simp add: updateCartUI_storage)
  next
    case False
    from no [OF that False] show ?thesis by (simp add: emit_def)
  qed
  have c1: "fst (clearCart answer st) = None" if "cart st \<noteq> []" "answer"
    unfolding yes [OF that] by (simp add: updateCartUI_empty saveCart_cart)
  have c2: "cart (snd (clearCart answer st)) = []" if "cart st \<noteq> []" "answer"
    unfolding yes [OF that] by (simp add: updateCartUI_cart saveCart_cart)
  have c3: "ls_item (snd (clearCart answer st)) = Some (JSON (Arr []))"
    if "cart st \<noteq> []" "answer" "ls_mode st = Usable" "\<not> ls_full st"
    unfolding yes [OF that(1,2)] using that(3,4)
    by (simp add: updateCartUI_storage saveCart_def emit_def JSON_stringify_def)
  have d: "clearCart answer st = (None, st\<lparr>effects := effects st @ [?q]\<rparr>)"
    if "cart st \<noteq> []" "\<not> answer"
    unfolding no [OF that] by (simp add: emit_def)
  from a b c1 c2 c3 d show ?thesis by blast
qed

theorem clearCart_outcome_witness:
  "cart two_items \<noteq> [] \<and> ls_mode two_items = Usable \<and> \<not> ls_full two_items
   \<and> fst (clearCart True two_items) = None
   \<and> cart (snd (clearCart True two_items)) = []
   \<and> ls_item (snd (clearCart True two_items)) = Some (JSON (Arr []))
   \<and> cart first_visit = [] \<and> clearCart True first_visit = (None, first_visit)"
proof -
  have h: "cart two_items \<noteq> []" "ls_mode two_items = Usable" "\<not> ls_full two_items"
    by code_simp+
  have e: "cart first_visit = []" by code_simp
  from clearCart_outcome [of two_items True] h
  have "fst (clearCart True two_items) = None \<and> cart (snd (clearCart True two_items)) = []
        \<and> ls_item (snd (clearCart True two_items)) = Some (JSON (Arr []))"
    by blast
  moreover from clearCart_outcome [of first_visit True] e
  have "clearCart True first_visit = (None, first_visit)" by blast
  ultimately show ?thesis using h e by blast
qed

text \<open>
  Where the write fails (\<open>setItem\<close> raises, which \<open>saveCart\<close> catches), the claim C7
  fails: the cart is cleared in memory, the persisted state is still the former cart, and
  the next \<open>loadCart\<close> brings it back.
\<close>

theorem clearCart_write_fails_counterexample:
  "cart (two_items\<lparr>ls_full := True\<rparr>) = [sunset, ocean]
   \<and> cart (snd (clearCart True (two_items\<lparr>ls_full := True\<rparr>))) = []
   \<and> ls_item (snd (clearCart True (two_items\<lparr>ls_full := True\<rparr>)))
       = Some (JSON (Arr [sunset, ocean]))
   \<and> cart (loadCart (snd (clearCart True (two_items\<lparr>ls_full := True\<rparr>)))) = [sunset, ocean]"
  by code_simp

subsection \<open>The gallery modal\<close>

text \<open>
  C9. On a page with the modal overlay, a click on the close button, a click on the
  overlay itself (outside the image) and Escape while the modal is open each close the
  modal: the overlay is hidden, the scrolling of the page is restored, and the source of
  the image is cleared. A click on the image inside the overlay, and Escape while the
  modal is not open, change nothing.
\<close>

theorem modal_close_events:
  assumes "overlay g \<noteq> None"
  shows "(close_button g \<noteq> None \<longrightarrow>
            handle CloseButtonClick g
              = g\<lparr>overlay := Some ''none'', body_overflow := [], image := map_option (\<lambda>_. []) (image g)\<rparr>)
         \<and> handle (OverlayClick True) g
              = g\<lparr>overlay := Some ''none'', body_overflow := [], image := map_option (\<lambda>_. []) (image g)\<rparr>
         \<and> (overlay g = Some ''flex'' \<longrightarrow>
              handle (KeyDown ''Escape'') g
                = g\<lparr>overlay := Some ''none'', body_overflow := [], image := map_option (\<lambda>_. []) (image g)\<rparr>)
         \<and> handle (OverlayClick False) g = g
         \<and> (overlay g \<noteq> Some ''flex'' \<longrightarrow> handle (KeyDown ''Escape'') g = g)"
  using assms by (auto simp: closeModal_def)

theorem modal_close_events_witness:
  "autumn_open =
     \<lparr>overlay = Some ''flex'', image = Some ''art1-full.jpg'', caption = Some (''Autumn'', ''block''),
      close_button = Some True, body_overflow = ''hidden'', warnings = []\<rparr>
   \<and> handle (KeyDown ''Escape'') autumn_open
       = autumn_open\<lparr>overlay := Some ''none'', body_overflow := [], image := Some []\<rparr>
   \<and> handle CloseButtonClick autumn_open
       = autumn_open\<lparr>overlay := Some ''none'', body_overflow := [], image := Some []\<rparr>
   \<and> handle (OverlayClick True) autumn_open
       = autumn_open\<lparr>overlay := Some ''none'', body_overflow := [], image := Some []\<rparr>
   \<and> handle (KeyDown ''Escape'') gallery_page = gallery_page"
proof -
  have o: "autumn_open =
     \<lparr>overlay = Some ''flex'', image = Some ''art1-full.jpg'', caption = Some (''Autumn'', ''block''),
      close_button = Some True, body_overflow = ''hidden'', warnings = []\<rparr>"
    by (simp add: autumn_open_def gallery_page_def openModal_def)
  have h: "overlay autumn_open \<noteq> None" "close_button autumn_open \<noteq> None"
    "overlay autumn_open = Some ''flex''" "image autumn_open = Some ''art1-full.jpg''"
    by (simp_all add: o)
  have h': "overlay gallery_page \<noteq> None" "overlay gallery_page \<noteq> Some ''flex''"
    by (simp_all add: gallery_page_def)
  have im: "map_option (\<lambda>_. []) (image autumn_open) = Some []"
    by (simp add: h(4))
  note m = modal_close_events [OF h(1), unfolded im]
  from m h(3)
  have a: "handle (KeyDown ''Escape'') autumn_open
             = autumn_open\<lparr>overlay := Some ''none'', body_overflow := [], image := Some []\<rparr>"
    by blast
  from m h(2)
  have b: "handle CloseButtonClick autumn_open
             = autumn_open\<lparr>overlay := Some ''none'', body_overflow := [], image := Some []\<rparr>"
    by blast
  from m
  have c: "handle (OverlayClick True) autumn_open
             = autumn_open\<lparr>overlay := Some ''none'', body_overflow := [], image := Some []\<rparr>"
    by blast
  from modal_close_events [OF h'(1)] h'(2)
  have d: "handle (KeyDown ''Escape'') gallery_page = gallery_page"
    by blast
  from o a b c d show ?thesis by (intro conjI)
qed

subsection \<open>The cart view\<close>

lemma renders_get:
  assumes "renders v"
  shows "get_prop v ''price'' = Some (Prim (Num (price_of v)))"
    and "get_prop v ''name'' = Some (name_of v)"
    and "\<not> to_string_raises (name_of v)"
proof -
  from assms have hp: "has_price v" and nr: "\<not> to_string_raises (name_of v)"
    by (simp_all add: renders_def)
  from hp show p: "get_prop v ''price'' = Some (Prim (Num (price_of v)))"
    by (auto simp: has_price_def price_of_def split: option.splits jsval.splits prim.splits)
  have "get_prop v ''name'' \<noteq> None"
    using p by (cases "(v, ''name'')" rule: get_prop.cases) (auto split: option.split)
  then show "get_prop v ''name'' = Some (name_of v)"
    by (auto simp: name_of_def)
  from nr show "\<not> to_string_raises (name_of v)" .
qed


lemma render_rows_step:
  assumes "fst (render_rows i (v # items) rows) = None"
  shows "renders v"
    and "fst (render_rows (Suc i) items (rows @ [item_row (i, v)])) = None"
proof -
  from assms obtain nm where nm: "get_prop v ''name'' = Some nm"
    by (cases "get_prop v ''name''") auto
  with assms have nr: "\<not> to_string_raises nm"
    by (auto split: if_splits)
  with assms nm obtain p where p: "get_prop v ''price'' = Some (Prim (Num p))"
    by (auto split: option.splits jsval.splits prim.splits)
  from nm nr p show "renders v"
    by (simp add: renders_def has_price_def name_of_def)
  from assms nm nr p show "fst (render_rows (Suc i) items (rows @ [item_row (i, v)])) = None"
    by (simp add: item_row_def name_of_def price_of_def)
qed

lemma render_rows_ok:
  "fst (render_rows i items rows) = None \<Longrightarrow> list_all renders items"
proof (induction items arbitrary: i rows)
  case Nil
  then show ?case by simp
next
  case (Cons v items)
  from render_rows_step [OF Cons.prems] Cons.IH show ?case by simp
qed

lemma reduce_total_all:
  assumes "list_all renders items"
  shows "reduce_total acc items = Some (foldl jadd acc (map price_of items))"
  using assms by (induction items arbitrary: acc) (simp_all add: renders_get)

lemma render_rows_cart_only:
  "fst (render_rows i items rows) = None \<Longrightarrow> reduce_total acc items \<noteq> None"
  by (simp add: render_rows_ok reduce_total_all)

text \<open>
  Where \<open>#cart-table\<close> exists and an item of the cart does not render, \<open>updateCartUI\<close>
  raises a \<open>TypeError\<close> and the text of the total stays what it was.
\<close>

lemma updateCartUI_raises:
  assumes "cart_table st \<noteq> None" and "\<not> list_all renders (cart st)"
  shows "fst (updateCartUI st) = Some TypeError"
    and "cart_total (snd (updateCartUI st)) = cart_total st"
proof -
  from assms(2) have ne: "cart st \<noteq> []" by auto
  from assms(2) render_rows_ok [of 0 "cart st" "[]"]
  have "fst (render_rows 0 (cart st) []) \<noteq> None" by blast
  then obtain e rows where r: "render_rows 0 (cart st) [] = (Some e, rows)"
    by (cases "render_rows 0 (cart st) []") auto
  have e: "e = TypeError" by (cases e) simp
  from assms(1) ne r e show "fst (updateCartUI st) = Some TypeError"
    by (auto simp: updateCartUI_def)
  from assms(1) ne r show "cart_total (snd (updateCartUI st)) = cart_total st"
    by (auto simp: updateCartUI_def)
qed




subsection \<open>The invariant of the cart\<close>

lemma cart_inv_splice1: "cart_inv c \<Longrightarrow> cart_inv (splice1 n c)"
proof -
  assume inv: "cart_inv c"
  define s where "s = splice_start n (length c)"
  let ?ids = "map (\<lambda>v. get_prop v ''id'') c"
  from inv have d: "distinct ?ids" by (simp add: cart_inv_def)
  then have "distinct (take s ?ids)" and "distinct (drop (Suc s) ?ids)"
    by simp_all
  moreover from d have "set (take s ?ids) \<inter> set (drop (Suc s) ?ids) = {}"
    by (rule set_take_disj_set_drop_if_distinct) simp
  ultimately have "distinct (map (\<lambda>v. get_prop v ''id'') (take s c @ drop (Suc s) c))"
    by (simp add: take_map drop_map)
  moreover from inv
  have "list_all (\<lambda>v. case get_prop v ''price'' of Some p \<Rightarrow> is_price p | None \<Rightarrow> False)
          (take s c @ drop (Suc s) c)"
    by (auto simp: cart_inv_def list_all_iff dest: in_set_takeD in_set_dropD)
  ultimately show ?thesis
    by (simp add: cart_inv_def splice1_def s_def Let_def)
qed

lemma removeItem_cart:
  "cart (snd (removeItem index st)) = cart st \<or> (\<exists>n. cart (snd (removeItem index st)) = splice1 n (cart st))"
  by (cases index) (auto simp: removeItem_def emit_def updateCartUI_cart saveCart_cart)

lemma loadCart_cart:
  "cart (loadCart st) = [] \<or> (\<exists>vs. ls_item st = Some (JSON (Arr vs)) \<and> cart (loadCart st) = vs)"
  by (auto simp: loadCart_def emit_def split: storage_mode.split option.split jsval.split
           elim: JSON_parse.elims)

lemma clearCart_cart:
  "cart (snd (clearCart answer st)) = (if answer then [] else cart st)"
  by (simp add: clearCart_def emit_def updateCartUI_cart saveCart_cart)

lemma addToCart_cart:
  "cart (snd (addToCart name price now rnd st)) =
     (if \<not> truthy name \<or> price_number price = NaN \<or> lt_zero (price_number price) then cart st
      else cart st @ [Obj [(''name'', Prim name), (''price'', Prim (parsed_price price)),
                           (''id'', Prim (Str (new_id now rnd)))]])"
  using addToCart_accepted [of name price now rnd st]
  by (auto simp: addToCart_def emit_def)

text \<open>
  C4, as the code has it. \<open>removeItem\<close> and \<open>clearCart\<close> keep the invariant (distinct
  ids, finite prices that are not negative). \<open>addToCart\<close> keeps it where the price is, or
  is read by \<open>parseFloat\<close> as, a finite number and the id it generates is not the id of an
  item of the cart. \<open>loadCart\<close> gives a cart with the invariant unless the stored text is
  JSON for an array without it.
\<close>

theorem cart_inv_preserved:
  "(cart_inv (cart st) \<longrightarrow> cart_inv (cart (snd (removeItem index st))))
   \<and> (cart_inv (cart st) \<longrightarrow> cart_inv (cart (snd (clearCart answer st))))
   \<and> (cart_inv (cart st) \<and> (\<exists>r. parsed_price price = Num (Fin r))
        \<and> Some (Prim (Str (new_id now rnd))) \<notin> set (map (\<lambda>v. get_prop v ''id'') (cart st)) \<longrightarrow>
        cart_inv (cart (snd (addToCart name price now rnd st))))
   \<and> ((\<forall>vs. ls_item st = Some (JSON (Arr vs)) \<longrightarrow> cart_inv vs) \<longrightarrow> cart_inv (cart (loadCart st)))"
proof -
  have a: "cart_inv (cart (snd (removeItem index st)))" if "cart_inv (cart st)"
    using removeItem_cart [of index st] that by (auto simp: cart_inv_splice1)
  have b: "cart_inv (cart (snd (clearCart answer st)))" if "cart_inv (cart st)"
    using that by (simp add: clearCart_cart cart_inv_def)
  have c: "cart_inv (cart (snd (addToCart name price now rnd st)))"
    if h: "cart_inv (cart st) \<and> (\<exists>r. parsed_price price = Num (Fin r))
        \<and> Some (Prim (Str (new_id now rnd))) \<notin> set (map (\<lambda>v. get_prop v ''id'') (cart st))"
  proof (cases "\<not> truthy name \<or> price_number price = NaN \<or> lt_zero (price_number price)")
    case True
    with h show ?thesis by (simp add: addToCart_cart)
  next
    case False
    from h obtain r where r: "parsed_price price = Num (Fin r)" by blast
    then have "price_number price = Fin r"
      by (cases price) auto
    with False have "0 \<le> r" by simp
    with h r False show ?thesis
      by (simp add: addToCart_cart cart_inv_def)
  qed
  have d: "cart_inv (cart (loadCart st))"
    if "\<forall>vs. ls_item st = Some (JSON (Arr vs)) \<longrightarrow> cart_inv vs"
    using that loadCart_cart [of st] by (auto simp: cart_inv_def)
  from a b c d show ?thesis by blast
qed

theorem cart_inv_preserved_witness:
  "cart_inv (cart two_items)
   \<and> parsed_price (Str ''12.5'') = Num (Fin (25 / 2))
   \<and> Some (Prim (Str (new_id 1002 ''0.k5''))) \<notin> set (map (\<lambda>v. get_prop v ''id'') (cart two_items))
   \<and> ls_item two_items = Some (JSON (Arr [sunset, ocean]))
   \<and> cart_inv (cart (snd (removeItem (Num (Fin 0)) two_items)))
   \<and> cart_inv (cart (snd (clearCart True two_items)))
   \<and> cart_inv (cart (snd (addToCart (Str ''Dune'') (Str ''12.5'') 1002 ''0.k5'' two_items)))
   \<and> cart_inv (cart (loadCart two_items))"
proof -
  have h1: "cart_inv (cart two_items)"
    unfolding two_items_page by code_simp
  have h2: "parsed_price (Str ''12.5'') = Num (Fin (25 / 2))"
    by code_simp
  have h3: "Some (Prim (Str (new_id 1002 ''0.k5''))) \<notin> set (map (\<lambda>v. get_prop v ''id'') (cart two_items))"
    unfolding two_items_page by code_simp
  have h4: "ls_item two_items = Some (JSON (Arr [sunset, ocean]))"
    by (simp add: two_items_page)
  have h4': "\<forall>vs. ls_item two_items = Some (JSON (Arr vs)) \<longrightarrow> cart_inv vs"
    using h1 h4 by (simp add: two_items_cart)
  note w = cart_inv_preserved [of two_items "Num (Fin 0)" True "Str ''12.5''" 1002 "''0.k5''" "Str ''Dune''"]
  from w h1 have a: "cart_inv (cart (snd (removeItem (Num (Fin 0)) two_items)))" by blast
  from w h1 have b: "cart_inv (cart (snd (clearCart True two_items)))" by blast
  from w h1 h2 h3
  have c: "cart_inv (cart (snd (addToCart (Str ''Dune'') (Str ''12.5'') 1002 ''0.k5'' two_items)))"
    by blast
  from w h4' have d: "cart_inv (cart (loadCart two_items))" by blast
  from h1 h2 h3 h4 a b c d show ?thesis by (intro conjI)
qed

text \<open>
  The claim C4 as it is written has the invariant after every operation. It fails after an
  addition with the price \<open>Infinity\<close>, which passes both tests of the guard and is not
  finite, and after a load of a stored array whose elements are no cart items.
\<close>

theorem cart_inv_counterexample:
  "cart_inv (cart first_visit)
   \<and> cart (snd (addToCart (Str ''Gold Leaf'') (Str ''Infinity'') 1000 ''0.k3'' first_visit))
       = [Obj [(''name'', Prim (Str ''Gold Leaf'')), (''price'', Prim (Num PosInf)),
               (''id'', Prim (Str ''rsk3''))]]
   \<and> \<not> cart_inv (cart (snd (addToCart (Str ''Gold Leaf'') (Str ''Infinity'') 1000 ''0.k3'' first_visit)))
   \<and> \<not> cart_inv (cart (loadCart (first_visit\<lparr>ls_item := Some (JSON (Arr [Prim (Num (Fin 42))]))\<rparr>)))"
  by code_simp

end
